theory Spec2Isabelle
  imports Complex_Main
begin

section \<open>Numbers, errors and the external collaborators\<close>

text \<open>
  The script \<^verbatim>\<open>logistic_regression.py\<close> computes with numpy \<^verbatim>\<open>float64\<close> values.
  Finite values are modelled as real numbers (rounding and overflow of finite arithmetic
  are not modelled, except for the sum \<^verbatim>\<open>1 + distance\<close> of the generator, which is rounded
  by \<open>float64_round\<close>, and the float \<^verbatim>\<open>-0.0\<close> is identified with \<^verbatim>\<open>0.0\<close>); the special
  values that numpy produces instead of raising (\<^verbatim>\<open>inf\<close>, \<^verbatim>\<open>-inf\<close>, \<^verbatim>\<open>nan\<close>) are
  constructors of their own. Exceptions of the script are values of \<open>py_error\<close>:
  \<open>FitError\<close> stands for the exception of a rejected fit, and \<open>ZeroDivisionError\<close> is the
  exception of Python's own division, which no operation of the script raises.
\<close>

datatype py_error = ValueError | IndexError | FitError | ZeroDivisionError

datatype npfloat = Fin real | PInf | NInf | NaN

fun np_neg :: "npfloat \<Rightarrow> npfloat" where
  "np_neg (Fin x) = Fin (- x)"
| "np_neg PInf = NInf"
| "np_neg NInf = PInf"
| "np_neg NaN = NaN"

fun np_add :: "npfloat \<Rightarrow> npfloat \<Rightarrow> npfloat" where
  "np_add (Fin x) (Fin y) = Fin (x + y)"
| "np_add NaN b = NaN"
| "np_add a NaN = NaN"
| "np_add PInf NInf = NaN"
| "np_add NInf PInf = NaN"
| "np_add PInf b = PInf"
| "np_add a PInf = PInf"
| "np_add NInf b = NInf"
| "np_add a NInf = NInf"

text \<open>The sign of a product with an infinite factor; zero times infinity is \<^verbatim>\<open>nan\<close>.\<close>

definition signed_inf :: "real \<Rightarrow> npfloat" where
  "signed_inf s = (if s = 0 then NaN else if 0 < s then PInf else NInf)"

fun np_mul :: "npfloat \<Rightarrow> npfloat \<Rightarrow> npfloat" where
  "np_mul (Fin x) (Fin y) = Fin (x * y)"
| "np_mul NaN b = NaN"
| "np_mul a NaN = NaN"
| "np_mul (Fin x) PInf = signed_inf x"
| "np_mul (Fin x) NInf = signed_inf (- x)"
| "np_mul PInf (Fin y) = signed_inf y"
| "np_mul NInf (Fin y) = signed_inf (- y)"
| "np_mul PInf PInf = PInf"
| "np_mul NInf NInf = PInf"
| "np_mul PInf NInf = NInf"
| "np_mul NInf PInf = NInf"

text \<open>
  \<^verbatim>\<open>np.log\<close> of a finite float: \<^verbatim>\<open>-inf\<close> at zero and \<^verbatim>\<open>nan\<close> below it (numpy warns and
  goes on). HOL's \<open>ln\<close> is total with \<open>ln 0 = 0\<close>, so the two cases are written out.
\<close>

definition np_log :: "real \<Rightarrow> npfloat" where
  "np_log x = (if x < 0 then NaN else if x = 0 then NInf else Fin (ln x))"

text \<open>
  Division of two finite \<^verbatim>\<open>np.float64\<close> scalars. Unlike Python's own \<^verbatim>\<open>float\<close>, a zero
  divisor raises nothing: the quotient is \<^verbatim>\<open>nan\<close> for \<^verbatim>\<open>0/0\<close> and an infinity otherwise
  (a \<^verbatim>\<open>RuntimeWarning\<close> is printed). The sign given here is the one for the divisor
  \<^verbatim>\<open>+0.0\<close>.
\<close>

definition np_truediv :: "real \<Rightarrow> real \<Rightarrow> npfloat" where
  "np_truediv a b = (if b = 0 then signed_inf a else Fin (a / b))"

text \<open>Comparison \<^verbatim>\<open>a >= 0\<close> of a float: false for \<^verbatim>\<open>nan\<close>.\<close>

fun np_nonneg :: "npfloat \<Rightarrow> bool" where
  "np_nonneg (Fin x) = (0 \<le> x)"
| "np_nonneg PInf = True"
| "np_nonneg NInf = False"
| "np_nonneg NaN = False"

fun np_sum :: "npfloat list \<Rightarrow> npfloat" where
  "np_sum [] = Fin 0"
| "np_sum (a # as) = np_add a (np_sum as)"

text \<open>\<^verbatim>\<open>np.mean\<close> of a one-dimensional array; the mean of an empty array is \<^verbatim>\<open>nan\<close>.\<close>

definition np_mean :: "npfloat list \<Rightarrow> npfloat" where
  "np_mean as = (if as = [] then NaN else np_mul (np_sum as) (Fin (1 / real (length as))))"

text \<open>\<^verbatim>\<open>a.min()\<close> and \<^verbatim>\<open>a.max()\<close> of a finite array; numpy raises on an empty one.\<close>

definition np_min :: "real list \<Rightarrow> py_error + real" where
  "np_min as = (case as of [] \<Rightarrow> Inl ValueError | a # rest \<Rightarrow> Inr (foldl min a rest))"

definition np_max :: "real list \<Rightarrow> py_error + real" where
  "np_max as = (case as of [] \<Rightarrow> Inl ValueError | a # rest \<Rightarrow> Inr (foldl max a rest))"

text \<open>
  \<^verbatim>\<open>np.linspace(start, stop, num)\<close> with the default \<^verbatim>\<open>endpoint=True\<close>: the values
  \<^verbatim>\<open>arange(num) * step + start\<close> with \<^verbatim>\<open>step = (stop - start) / (num - 1)\<close>, the last one
  overwritten by \<^verbatim>\<open>stop\<close> when \<^verbatim>\<open>num > 1\<close>. A negative \<^verbatim>\<open>num\<close> raises.
\<close>

definition np_linspace :: "real \<Rightarrow> real \<Rightarrow> int \<Rightarrow> py_error + real list" where
  "np_linspace start stop num =
     (if num < 0 then Inl ValueError
      else let dv = num - 1;
               delta = stop - start;
               y = map (\<lambda>i. if 0 < dv then real i * (delta / real_of_int dv) + start
                              else real i * delta + start) [0..<nat num]
           in Inr (if 1 < num then y[nat num - 1 := stop] else y))"

text \<open>
  Rounding of an exact real result to \<^verbatim>\<open>float64\<close>, for results in the normal range: the
  result is scaled by the unit in the last place of its binade, \<open>2\<^sup>e\<^sup>-\<^sup>5\<^sup>2\<close> for
  \<open>2\<^sup>e \<le> |x| < 2\<^sup>e\<^sup>+\<^sup>1\<close>, and rounded to the nearest integer, a tie going to the even one.
  Subnormal results and overflow are outside this definition; \<open>float64_max\<close> is the
  largest finite \<^verbatim>\<open>float64\<close>.
\<close>

definition round_half_even :: "real \<Rightarrow> int" where
  "round_half_even t =
     (let r = \<lfloor>t\<rfloor>; f = t - of_int r
      in if f < 1/2 then r else if 1/2 < f then r + 1 else if even r then r else r + 1)"

definition pow2 :: "int \<Rightarrow> real" where
  "pow2 k = (if 0 \<le> k then 2 ^ nat k else 1 / 2 ^ nat (- k))"

definition float64_round :: "real \<Rightarrow> real" where
  "float64_round x =
     (if x = 0 then 0
      else let e = \<lfloor>log 2 \<bar>x\<bar>\<rfloor>; u = pow2 (e - 52)
           in u * of_int (round_half_even (x / u)))"


type_synonym point = "real \<times> real"
type_synonym mat2 = "(real \<times> real) \<times> (real \<times> real)"

text \<open>
  A probability surface on the lattice handed to the contouring routine: the two
  coordinate grids of \<^verbatim>\<open>np.meshgrid\<close> and the grid of class-1 probabilities.
\<close>

record surface =
  xx :: "real list list"
  yy :: "real list list"
  Z :: "real list list"

text \<open>
  A fitted \<^verbatim>\<open>LogisticRegression\<close>: \<open>intercept_0\<close> is \<^verbatim>\<open>model.intercept_[0]\<close>, \<open>coef_0\<close> is
  \<^verbatim>\<open>model.coef_[0]\<close>, and \<open>proba1\<close> is the class-1 probability the model predicts for one
  query point (column 1 of one row of \<^verbatim>\<open>predict_proba\<close>).
\<close>

record fitted_model =
  intercept_0 :: real
  coef_0 :: "real \<times> real"
  proba1 :: "point \<Rightarrow> real"

text \<open>
  The libraries the script calls are parameters of the model.
  The global generator of \<^verbatim>\<open>np.random\<close> is a state of an arbitrary type \<open>'g\<close>:
  \<open>np_random_seed\<close> is the state that \<^verbatim>\<open>np.random.seed(k)\<close> installs, and \<open>draw\<close> takes
  one point of a bivariate normal distribution from a state and returns the next state.
  \<open>fit\<close> is \<^verbatim>\<open>LogisticRegression().fit(X, y)\<close>, \<open>None\<close> when the solver rejects the data.
  \<open>contourf S lo hi\<close> is \<^verbatim>\<open>plt.contourf(xx, yy, Z, levels=[lo, hi]).collections[0].get_paths()\<close>:
  the boundary polylines of the region whose probability lies between the two levels.
  The drawing side of matplotlib (figures, subplots, scatter, savefig) is left out.
\<close>

record 'g env =
  np_random_seed :: "nat \<Rightarrow> 'g"
  draw :: "'g \<Rightarrow> point \<Rightarrow> mat2 \<Rightarrow> point \<times> 'g"
  fit :: "point list \<Rightarrow> real list \<Rightarrow> fitted_model option"
  contourf :: "surface \<Rightarrow> real \<Rightarrow> real \<Rightarrow> point list list"

fun draw_many :: "'g env \<Rightarrow> 'g \<Rightarrow> point \<Rightarrow> mat2 \<Rightarrow> nat \<Rightarrow> point list \<times> 'g" where
  "draw_many E g mean cov 0 = ([], g)"
| "draw_many E g mean cov (Suc k) =
     (case draw E g mean cov of (x, g1) \<Rightarrow>
        (case draw_many E g1 mean cov k of (xs, g2) \<Rightarrow> (x # xs, g2)))"

text \<open>\<^verbatim>\<open>np.random.multivariate_normal(mean, cov, size)\<close>: \<open>size\<close> rows drawn one after the
  other, or an error for a negative size.\<close>

definition multivariate_normal ::
  "'g env \<Rightarrow> 'g \<Rightarrow> point \<Rightarrow> mat2 \<Rightarrow> int \<Rightarrow> py_error + (point list \<times> 'g)" where
  "multivariate_normal E g mean cov sz =
     (if sz < 0 then Inl ValueError else Inr (draw_many E g mean cov (nat sz)))"

section \<open>The cluster generator\<close>

definition covariance_matrix :: "real \<Rightarrow> mat2" where
  "covariance_matrix cluster_std =
     ((cluster_std, cluster_std * 0.8), (cluster_std * 0.8, cluster_std))"

definition class0_mean :: point where
  "class0_mean = (1, 1)"

text \<open>The mean of class 1: each coordinate is the \<^verbatim>\<open>float64\<close> sum \<^verbatim>\<open>1 + distance\<close>.\<close>

definition class1_mean :: "real \<Rightarrow> point" where
  "class1_mean distance = (float64_round (1 + distance), float64_round (1 + distance))"

text \<open>
  \<open>generate_ellipsoid_clusters E g distance n_samples cluster_std\<close>, called when the global
  generator is in state \<open>g\<close>, returns the dataset \<open>(X, y)\<close> and the state it leaves behind.
\<close>

definition generate_ellipsoid_clusters ::
  "'g env \<Rightarrow> 'g \<Rightarrow> real \<Rightarrow> int \<Rightarrow> real \<Rightarrow> py_error + ((point list \<times> real list) \<times> 'g)" where
  "generate_ellipsoid_clusters E g distance n_samples cluster_std =
     (let g0 = np_random_seed E 0;
          cov = covariance_matrix cluster_std
      in case multivariate_normal E g0 class0_mean cov n_samples of
           Inl e \<Rightarrow> Inl e
         | Inr (X1, g1) \<Rightarrow>
             (let y1 = replicate (nat n_samples) (0::real)
              in case multivariate_normal E g1 (class1_mean distance) cov n_samples of
                   Inl e \<Rightarrow> Inl e
                 | Inr (X2, g2) \<Rightarrow>
                     (let y2 = replicate (nat n_samples) (1::real)
                      in Inr ((X1 @ X2, y1 @ y2), g2))))"

text \<open>The Euclidean distance of two points (the metric of \<^verbatim>\<open>cdist\<close>).\<close>

definition euclidean :: "point \<Rightarrow> point \<Rightarrow> real" where
  "euclidean a b = sqrt ((fst a - fst b)\<^sup>2 + (snd a - snd b)\<^sup>2)"

text \<open>The distance between the two means the generator samples around.\<close>

definition mean_separation :: "real \<Rightarrow> real" where
  "mean_separation distance = euclidean class0_mean (class1_mean distance)"

section \<open>Fitting and the loss\<close>

definition fit_logistic_regression ::
  "'g env \<Rightarrow> point list \<Rightarrow> real list \<Rightarrow> py_error + (fitted_model \<times> real \<times> real \<times> real)" where
  "fit_logistic_regression E X y =
     (case fit E X y of
        None \<Rightarrow> Inl FitError
      | Some model \<Rightarrow> Inr (model, intercept_0 model, fst (coef_0 model), snd (coef_0 model)))"

text \<open>\<^verbatim>\<open>model.predict_proba(X)[:, 1]\<close>; scikit-learn rejects an array with no rows.\<close>

definition predict_proba :: "fitted_model \<Rightarrow> point list \<Rightarrow> py_error + real list" where
  "predict_proba model X = (if X = [] then Inl ValueError else Inr (map (proba1 model) X))"

text \<open>
  The shapes of two one-dimensional operands of an elementwise operation: equal lengths
  pair up, a length of one is stretched, anything else raises.
\<close>

definition broadcast2 :: "'a list \<Rightarrow> 'b list \<Rightarrow> py_error + ('a \<times> 'b) list" where
  "broadcast2 as bs =
     (if length as = length bs then Inr (zip as bs)
      else if length as = 1 then Inr (map (\<lambda>b. (hd as, b)) bs)
      else if length bs = 1 then Inr (map (\<lambda>a. (a, hd bs)) as)
      else Inl ValueError)"

definition log_likelihood_term :: "real \<times> real \<Rightarrow> npfloat" where
  "log_likelihood_term yp =
     (case yp of (y, p) \<Rightarrow>
        np_add (np_mul (Fin y) (np_log p)) (np_mul (Fin (1 - y)) (np_log (1 - p))))"

definition logistic_loss :: "fitted_model \<Rightarrow> point list \<Rightarrow> real list \<Rightarrow> py_error + npfloat" where
  "logistic_loss model X y =
     (case predict_proba model X of
        Inl e \<Rightarrow> Inl e
      | Inr probabilities \<Rightarrow>
          (case broadcast2 y probabilities of
             Inl e \<Rightarrow> Inl e
           | Inr yp \<Rightarrow> Inr (np_neg (np_mean (map log_likelihood_term yp)))))"

text \<open>
  The loss as the specification words it: for each point the quantity
  \<open>-(y\<^sub>i ln p\<^sub>i + (1 - y\<^sub>i) ln (1 - p\<^sub>i))\<close> is accumulated, and the total is divided by the
  number of points. \<open>spec_mean_nll\<close> does so in float arithmetic, \<open>spec_mean_nll_real\<close>
  in the reals.
\<close>

definition spec_mean_nll :: "real list \<Rightarrow> real list \<Rightarrow> npfloat" where
  "spec_mean_nll ys ps =
     np_mean (map (\<lambda>(y, p). np_neg (np_add (np_mul (Fin y) (np_log p))
                                            (np_mul (Fin (1 - y)) (np_log (1 - p)))))
                  (zip ys ps))"

definition spec_mean_nll_real :: "real list \<Rightarrow> real list \<Rightarrow> real" where
  "spec_mean_nll_real ys ps =
     (\<Sum>i<length ps. - (ys ! i * ln (ps ! i) + (1 - ys ! i) * ln (1 - ps ! i))) / real (length ps)"

section \<open>The margin\<close>

definition first_path :: "point list list \<Rightarrow> py_error + point list" where
  "first_path paths = (case paths of [] \<Rightarrow> Inl IndexError | p # rest \<Rightarrow> Inr p)"

definition cdist :: "point list \<Rightarrow> point list \<Rightarrow> real list list" where
  "cdist XA XB = map (\<lambda>a. map (\<lambda>b. euclidean a b) XB) XA"

text \<open>Lines 83 to 86: the smallest entry of the distance matrix of the two first polylines.\<close>

definition min_distance :: "point list list \<Rightarrow> point list list \<Rightarrow> py_error + real" where
  "min_distance class_1_paths class_0_paths =
     (case first_path class_1_paths of
        Inl e \<Rightarrow> Inl e
      | Inr v1 \<Rightarrow>
          (case first_path class_0_paths of
             Inl e \<Rightarrow> Inl e
           | Inr v0 \<Rightarrow> np_min (concat (cdist v1 v0))))"

text \<open>
  Lines 71 to 75. \<^verbatim>\<open>Z\<close> holds, at row \<open>i\<close> and column \<open>j\<close>, the probability at the lattice
  point \<open>(xx[i][j], yy[i][j])\<close>, which is what ravel, \<^verbatim>\<open>np.c_\<close>, prediction and reshape
  compute together.
\<close>

definition meshgrid :: "real list \<Rightarrow> real list \<Rightarrow> real list list \<times> real list list" where
  "meshgrid us vs = (map (\<lambda>v. us) vs, map (\<lambda>v. map (\<lambda>u. v) us) vs)"

definition confidence_surface :: "fitted_model \<Rightarrow> point list \<Rightarrow> py_error + surface" where
  "confidence_surface model X =
     (case np_min (map fst X) of Inl e \<Rightarrow> Inl e | Inr x_lo \<Rightarrow>
     (case np_max (map fst X) of Inl e \<Rightarrow> Inl e | Inr x_hi \<Rightarrow>
     (case np_min (map snd X) of Inl e \<Rightarrow> Inl e | Inr y_lo \<Rightarrow>
     (case np_max (map snd X) of Inl e \<Rightarrow> Inl e | Inr y_hi \<Rightarrow>
     (case np_linspace (x_lo - 1) (x_hi + 1) 200 of Inl e \<Rightarrow> Inl e | Inr us \<Rightarrow>
     (case np_linspace (y_lo - 1) (y_hi + 1) 200 of Inl e \<Rightarrow> Inl e | Inr vs \<Rightarrow>
     (case meshgrid us vs of (gx, gy) \<Rightarrow>
        Inr \<lparr>xx = gx, yy = gy,
             Z = map (\<lambda>(xr, yr). map (proba1 model) (zip xr yr)) (zip gx gy)\<rparr>)))))))"

text \<open>
  Lines 77 to 87: the loop over the three confidence levels. Both regions are contoured
  at every level; the margin is measured and appended at the level 0.7 only.
\<close>

definition contour_levels :: "real list" where
  "contour_levels = [0.7, 0.8, 0.9]"

fun contour_loop :: "'g env \<Rightarrow> surface \<Rightarrow> real list \<Rightarrow> real list \<Rightarrow> py_error + real list" where
  "contour_loop E S [] widths = Inr widths"
| "contour_loop E S (level # levels) widths =
     (let class_1_contour = contourf E S level 1;
          class_0_contour = contourf E S 0 (1 - level)
      in if level = 0.7
         then (case min_distance class_1_contour class_0_contour of
                 Inl e \<Rightarrow> Inl e
               | Inr d \<Rightarrow> contour_loop E S levels (widths @ [d]))
         else contour_loop E S levels widths)"

section \<open>The sweep\<close>

record sweep_lists =
  beta0_list :: "real list"
  beta1_list :: "real list"
  beta2_list :: "real list"
  slope_list :: "npfloat list"
  intercept_list :: "npfloat list"
  loss_list :: "npfloat list"
  margin_widths :: "real list"

definition empty_lists :: sweep_lists where
  "empty_lists = \<lparr>beta0_list = [], beta1_list = [], beta2_list = [], slope_list = [],
                  intercept_list = [], loss_list = [], margin_widths = []\<rparr>"

text \<open>Lines 60 and 61: slope and intercept of the decision boundary.\<close>

definition decision_boundary :: "real \<Rightarrow> real \<Rightarrow> real \<Rightarrow> npfloat \<times> npfloat" where
  "decision_boundary beta0 beta1 beta2 =
     (let slope = np_truediv (- beta1) beta2;
          intercept = np_truediv (- beta0) beta2
      in (slope, intercept))"

text \<open>
  The body of the loop of \<^verbatim>\<open>do_experiments\<close> (lines 55 to 87) for one shift distance, on
  the generator state and the seven lists.
\<close>

definition run_experiment ::
  "'g env \<Rightarrow> 'g \<times> sweep_lists \<Rightarrow> real \<Rightarrow> py_error + ('g \<times> sweep_lists)" where
  "run_experiment E s distance =
     (case s of (g, L) \<Rightarrow>
     (case generate_ellipsoid_clusters E g distance 100 0.5 of Inl e \<Rightarrow> Inl e
      | Inr ((X, y), g1) \<Rightarrow>
     (case fit_logistic_regression E X y of Inl e \<Rightarrow> Inl e
      | Inr (model, beta0, beta1, beta2) \<Rightarrow>
     (case logistic_loss model X y of Inl e \<Rightarrow> Inl e
      | Inr loss \<Rightarrow>
     (case decision_boundary beta0 beta1 beta2 of (slope, intercept) \<Rightarrow>
     (case confidence_surface model X of Inl e \<Rightarrow> Inl e
      | Inr S \<Rightarrow>
     (case contour_loop E S contour_levels (margin_widths L) of Inl e \<Rightarrow> Inl e
      | Inr widths \<Rightarrow>
          Inr (g1, \<lparr>beta0_list = beta0_list L @ [beta0],
                    beta1_list = beta1_list L @ [beta1],
                    beta2_list = beta2_list L @ [beta2],
                    slope_list = slope_list L @ [slope],
                    intercept_list = intercept_list L @ [intercept],
                    loss_list = loss_list L @ [loss],
                    margin_widths = widths\<rparr>))))))))"

fun sweep_loop :: "'g env \<Rightarrow> 'g \<times> sweep_lists \<Rightarrow> real list \<Rightarrow> py_error + ('g \<times> sweep_lists)" where
  "sweep_loop E s [] = Inr s"
| "sweep_loop E s (distance # rest) =
     (case run_experiment E s distance of Inl e \<Rightarrow> Inl e | Inr s' \<Rightarrow> sweep_loop E s' rest)"




section \<open>A concrete environment\<close>

text \<open>
  An instance of the collaborators, used to run the model: a counter as generator state,
  a fit that returns a given linear model, and a contouring routine that returns given
  polylines for the upper band (\<open>hi = 1\<close>) and for the lower band.
\<close>

definition sigmoid :: "real \<Rightarrow> real" where
  "sigmoid t = 1 / (1 + exp (- t))"

definition linear_model :: "real \<Rightarrow> real \<Rightarrow> real \<Rightarrow> fitted_model" where
  "linear_model b0 b1 b2 =
     \<lparr>intercept_0 = b0, coef_0 = (b1, b2),
      proba1 = (\<lambda>x. sigmoid (b0 + b1 * fst x + b2 * snd x))\<rparr>"

definition constant_model :: "real \<Rightarrow> fitted_model" where
  "constant_model p = \<lparr>intercept_0 = 0, coef_0 = (0, 0), proba1 = (\<lambda>x. p)\<rparr>"

definition counter_env :: "fitted_model \<Rightarrow> point list list \<Rightarrow> point list list \<Rightarrow> nat env" where
  "counter_env model upper lower =
     \<lparr>np_random_seed = (\<lambda>k. k),
      draw = (\<lambda>g mean cov. ((fst mean + real g / 100, snd mean - real g / 100), Suc g)),
      fit = (\<lambda>X y. Some model),
      contourf = (\<lambda>S lo hi. if hi = 1 then upper else lower)\<rparr>"

section \<open>Properties of the rounding\<close>

lemma pow2_powr: "pow2 k = 2 powr (of_int k)"
  by (simp add: pow2_def powr_real_of_int inverse_eq_divide)

lemma pow2_pos: "0 < pow2 k"
  by (simp add: pow2_powr)

lemma pow2_add: "pow2 (a + b) = pow2 a * pow2 b"
  by (simp add: pow2_powr powr_add)

lemma pow2_mono: "a \<le> b \<Longrightarrow> pow2 a \<le> pow2 b"
  by (simp add: pow2_powr)

lemma round_half_even_bounds:
  "of_int (round_half_even t) \<le> t + 1/2 \<and> t - 1/2 \<le> of_int (round_half_even t)"
  unfolding round_half_even_def Let_def by (auto; linarith)

lemma round_half_even_of_int: "round_half_even (of_int k) = k"
  by (simp add: round_half_even_def)

lemma round_half_even_mono:
  assumes "s \<le> t"
  shows "round_half_even s \<le> round_half_even t"
proof (rule ccontr)
  assume "\<not> round_half_even s \<le> round_half_even t"
  then have gt: "round_half_even t + 1 \<le> round_half_even s" by simp
  have 1: "real_of_int (round_half_even s) \<le> s + 1/2" and 2: "t - 1/2 \<le> real_of_int (round_half_even t)"
    using round_half_even_bounds by blast+
  from gt have 3: "real_of_int (round_half_even t) + 1 \<le> real_of_int (round_half_even s)"
    by (metis of_int_1 of_int_add of_int_le_iff)
  from 1 2 3 assms have st: "s = t" and rs: "real_of_int (round_half_even s) = s + 1/2"
    and rt: "real_of_int (round_half_even t) = t - 1/2" by linarith+
  from rs rt st have "real_of_int (round_half_even s) = real_of_int (round_half_even t) + 1" by simp
  with st show False by simp
qed

lemma round_half_even_ge: "of_int a \<le> t \<Longrightarrow> a \<le> round_half_even t"
  using round_half_even_mono [of "of_int a" t] by (simp add: round_half_even_of_int)

lemma round_half_even_le: "t \<le> of_int b \<Longrightarrow> round_half_even t \<le> b"
  using round_half_even_mono [of t "of_int b"] by (simp add: round_half_even_of_int)

lemma round_half_even_below_half:
  "of_int r \<le> t \<Longrightarrow> t < of_int r + 1/2 \<Longrightarrow> round_half_even t = r"
proof -
  assume a: "of_int r \<le> t" and b: "t < of_int r + 1/2"
  then have "\<lfloor>t\<rfloor> = r" by linarith
  with b show ?thesis by (simp add: round_half_even_def)
qed

lemma float64_round_binade:
  assumes "pow2 e \<le> \<bar>x\<bar>" and "\<bar>x\<bar> < pow2 (e + 1)"
  shows "float64_round x = pow2 (e - 52) * of_int (round_half_even (x / pow2 (e - 52)))"
proof -
  have pos: "0 < \<bar>x\<bar>" using assms(1) pow2_pos [of e] by linarith
  have "\<lfloor>log 2 \<bar>x\<bar>\<rfloor> = e"
    using assms pos by (simp add: floor_log_eq_powr_iff pow2_powr)
  with pos show ?thesis by (simp add: float64_round_def Let_def)
qed

lemma binade_exists:
  assumes "0 < x"
  shows "pow2 \<lfloor>log 2 x\<rfloor> \<le> x \<and> x < pow2 (\<lfloor>log 2 x\<rfloor> + 1)"
  using floor_log_eq_powr_iff [of x 2 "\<lfloor>log 2 x\<rfloor>"] assms by (simp add: pow2_powr)

lemma float64_round_range:
  assumes "pow2 e \<le> x" and "x < pow2 (e + 1)"
  shows "pow2 e \<le> float64_round x \<and> float64_round x \<le> pow2 (e + 1)"
proof -
  let ?u = "pow2 (e - 52)"
  have u: "0 < ?u" by (rule pow2_pos)
  have x: "0 < x" using assms(1) pow2_pos [of e] by linarith
  have fl: "float64_round x = ?u * of_int (round_half_even (x / ?u))"
    using float64_round_binade [of e x] assms x by simp
  have "pow2 (e - 52 + 52) = ?u * pow2 52" and "pow2 (e - 52 + 53) = ?u * pow2 53"
    by (rule pow2_add)+
  moreover have "pow2 52 = of_int (2 ^ 52)" and "pow2 53 = of_int (2 ^ 53)"
    by (simp_all add: pow2_def)
  moreover have "e - 52 + 52 = e" and "e - 52 + 53 = e + 1" by simp_all
  ultimately have lo: "pow2 e = ?u * of_int (2 ^ 52)" and hi: "pow2 (e + 1) = ?u * of_int (2 ^ 53)"
    by (simp_all only:)
  have "of_int (2 ^ 52) \<le> x / ?u" using assms(1) u by (simp add: lo pos_le_divide_eq mult.commute)
  then have a: "2 ^ 52 \<le> round_half_even (x / ?u)" by (rule round_half_even_ge)
  have "x / ?u \<le> of_int (2 ^ 53)" using assms(2) u by (simp add: hi pos_divide_le_eq mult.commute)
  then have b: "round_half_even (x / ?u) \<le> 2 ^ 53" by (rule round_half_even_le)
  have "?u * of_int (2 ^ 52) \<le> ?u * of_int (round_half_even (x / ?u))"
    using a u by (simp only: mult_le_cancel_left_pos of_int_le_iff)
  moreover have "?u * of_int (round_half_even (x / ?u)) \<le> ?u * of_int (2 ^ 53)"
    using b u by (simp only: mult_le_cancel_left_pos of_int_le_iff)
  ultimately show ?thesis by (simp only: fl lo hi)
qed

lemma float64_round_mono_pos:
  assumes "0 < x" and "x \<le> y"
  shows "float64_round x \<le> float64_round y"
proof -
  let ?ex = "\<lfloor>log 2 x\<rfloor>" and ?ey = "\<lfloor>log 2 y\<rfloor>"
  have y: "0 < y" using assms by linarith
  note bx = binade_exists [OF assms(1)] and by' = binade_exists [OF y]
  have le: "?ex \<le> ?ey" using assms by (intro floor_mono) simp
  show ?thesis
  proof (cases "?ex = ?ey")
    case True
    let ?u = "pow2 (?ex - 52)"
    have u: "0 < ?u" by (rule pow2_pos)
    have fx: "float64_round x = ?u * of_int (round_half_even (x / ?u))"
      using float64_round_binade [of ?ex x] bx assms(1) by simp
    have fy: "float64_round y = ?u * of_int (round_half_even (y / ?u))"
      using float64_round_binade [of ?ex y] by' y True by simp
    have "x / ?u \<le> y / ?u" using assms(2) u by (simp add: divide_right_mono)
    then have "round_half_even (x / ?u) \<le> round_half_even (y / ?u)" by (rule round_half_even_mono)
    then show ?thesis using u by (simp only: fx fy mult_le_cancel_left_pos of_int_le_iff)
  next
    case False
    with le have "?ex + 1 \<le> ?ey" by simp
    then have "pow2 (?ex + 1) \<le> pow2 ?ey" by (rule pow2_mono)
    moreover have "float64_round x \<le> pow2 (?ex + 1)"
      using float64_round_range [of ?ex x] bx by simp
    moreover have "pow2 ?ey \<le> float64_round y"
      using float64_round_range [of ?ey y] by' by simp
    ultimately show ?thesis by linarith
  qed
qed

lemma round_half_even_numeral: "round_half_even (numeral n) = numeral n"
  using round_half_even_of_int [of "numeral n"] by simp

lemma float64_round_1: "float64_round 1 = 1"
  using float64_round_binade [of 0 1] by (simp add: pow2_def round_half_even_numeral)

lemma float64_round_2: "float64_round 2 = 2"
  using float64_round_binade [of 1 2] by (simp add: pow2_def round_half_even_numeral)

lemma float64_round_3: "float64_round 3 = 3"
  using float64_round_binade [of 1 3] by (simp add: pow2_def round_half_even_numeral)

lemma float64_round_0: "float64_round 0 = 0"
  by (simp add: float64_round_def)

lemma float64_round_m1: "float64_round (- 1) = - 1"
  using float64_round_binade [of 0 "- 1"] round_half_even_of_int [of "- 4503599627370496"]
  by (simp add: pow2_def)

lemma float64_round_near:
  assumes "pow2 e \<le> \<bar>x\<bar>" and "\<bar>x\<bar> < pow2 (e + 1)"
    and "of_int r \<le> x / pow2 (e - 52)" and "x / pow2 (e - 52) < of_int r + 1/2"
  shows "float64_round x = pow2 (e - 52) * of_int r"
  by (simp only: float64_round_binade [OF assms(1,2)] round_half_even_below_half [OF assms(3,4)])

lemma float64_round_tiny60: "float64_round (1 + 1 / 2 ^ 60) = 1"
proof -
  have "float64_round (1 + 1 / 2 ^ 60) = pow2 (0 - 52) * of_int (2 ^ 52)"
    by (rule float64_round_near) (simp_all add: pow2_def)
  then show ?thesis by (simp add: pow2_def)
qed

lemma float64_round_tiny59: "float64_round (1 + 1 / 2 ^ 59) = 1"
proof -
  have "float64_round (1 + 1 / 2 ^ 59) = pow2 (0 - 52) * of_int (2 ^ 52)"
    by (rule float64_round_near) (simp_all add: pow2_def)
  then show ?thesis by (simp add: pow2_def)
qed

section \<open>Properties of the generator\<close>

lemma draw_many_length: "length (fst (draw_many E g m c k)) = k"
proof (induction k arbitrary: g)
  case 0
  show ?case by simp
next
  case (Suc k)
  obtain x g1 where d: "draw E g m c = (x, g1)" by (cases "draw E g m c")
  obtain xs g2 where r: "draw_many E g1 m c k = (xs, g2)" by (cases "draw_many E g1 m c k")
  from Suc [of g1] r have "length xs = k" by simp
  with d r show ?case by simp
qed

lemma generate_nonneg:
  assumes "0 \<le> n"
  shows "generate_ellipsoid_clusters E g d n s =
     Inr ((fst (draw_many E (np_random_seed E 0) class0_mean (covariance_matrix s) (nat n)) @
           fst (draw_many E (snd (draw_many E (np_random_seed E 0) class0_mean
                                     (covariance_matrix s) (nat n)))
                  (class1_mean d) (covariance_matrix s) (nat n)),
           replicate (nat n) 0 @ replicate (nat n) 1),
          snd (draw_many E (snd (draw_many E (np_random_seed E 0) class0_mean
                                    (covariance_matrix s) (nat n)))
                 (class1_mean d) (covariance_matrix s) (nat n)))"
  using assms
  by (simp add: generate_ellipsoid_clusters_def multivariate_normal_def Let_def
      split: prod.splits)

lemma generate_negative:
  "n < 0 \<Longrightarrow> generate_ellipsoid_clusters E g d n s = Inl ValueError"
  by (simp add: generate_ellipsoid_clusters_def multivariate_normal_def Let_def)

lemma count_list_replicate: "count_list (replicate k a) b = (if a = b then k else 0)"
  by (induction k) auto

lemma mean_separation_rounded:
  "mean_separation d = \<bar>float64_round (1 + d) - 1\<bar> * sqrt 2"
proof -
  let ?m = "float64_round (1 + d)"
  have "(1 - ?m)\<^sup>2 + (1 - ?m)\<^sup>2 = 2 * (?m - 1)\<^sup>2"
    by (simp add: power2_commute)
  then have "mean_separation d = sqrt (2 * (?m - 1)\<^sup>2)"
    by (simp add: mean_separation_def euclidean_def class0_mean_def class1_mean_def)
  also have "\<dots> = sqrt 2 * sqrt ((?m - 1)\<^sup>2)"
    by (simp add: real_sqrt_mult)
  finally show ?thesis by simp
qed

lemma class1_coordinate_ge_1: "0 \<le> d \<Longrightarrow> 1 \<le> float64_round (1 + d)"
  using float64_round_mono_pos [of 1 "1 + d"] by (simp add: float64_round_1)

text \<open>
  Claim C3. Two calls of the generator with the same \<open>(d, n, s)\<close> return the same dataset,
  whatever state the global random generator is in when each call starts (\<open>g\<close> for one
  call, \<open>g'\<close> for the other): the seed is installed before anything is drawn. A negative
  \<open>n\<close> makes both calls raise the same error.
\<close>

theorem generator_reproducible:
  "map_sum id fst (generate_ellipsoid_clusters E g d n s) =
   map_sum id fst (generate_ellipsoid_clusters E g' d n s)"
  by (simp add: generate_ellipsoid_clusters_def)

text \<open>
  Claim C4. For a sample count \<open>n\<close> (a count, so \<open>0 \<le> n\<close>) and any shift distance the
  generator returns \<open>2n\<close> points and \<open>2n\<close> labels, \<open>n\<close> labels 0 and \<open>n\<close> labels 1; the labels
  are \<open>n\<close> zeros followed by \<open>n\<close> ones, the first \<open>n\<close> points are the draws around the
  class-0 mean and the last \<open>n\<close> points the draws around the class-1 mean.
\<close>

theorem generator_counts_and_order:
  assumes "0 \<le> n"
  shows "\<exists>X y g'. generate_ellipsoid_clusters E g d n s = Inr ((X, y), g')
    \<and> int (length X) = 2 * n \<and> int (length y) = 2 * n
    \<and> int (count_list y 0) = n \<and> int (count_list y 1) = n
    \<and> y = replicate (nat n) 0 @ replicate (nat n) 1
    \<and> take (nat n) X =
        fst (draw_many E (np_random_seed E 0) class0_mean (covariance_matrix s) (nat n))
    \<and> drop (nat n) X =
        fst (draw_many E (snd (draw_many E (np_random_seed E 0) class0_mean
                                  (covariance_matrix s) (nat n)))
               (class1_mean d) (covariance_matrix s) (nat n))"
  using assms
  by (simp add: generate_nonneg draw_many_length count_list_replicate)

theorem generator_counts_and_order_witness:
  "(0::int) \<le> 2 \<and>
   generate_ellipsoid_clusters (counter_env (constant_model (1/2)) [] []) 7 1 2 (1/2) =
     Inr (([(1, 1), (101/100, 99/100), (101/50, 99/50), (203/100, 197/100)], [0, 0, 1, 1]), 4)"
proof -
  have h: "(0::int) \<le> 2" by simp
  from generator_counts_and_order [OF h, of "counter_env (constant_model (1/2)) [] []" 7 1 "1/2"]
  obtain X y g' where
    "generate_ellipsoid_clusters (counter_env (constant_model (1/2)) [] []) 7 1 2 (1/2)
       = Inr ((X, y), g')"
    by blast
  moreover have
    "generate_ellipsoid_clusters (counter_env (constant_model (1/2)) [] []) 7 1 2 (1/2) =
     Inr (([(1, 1), (101/100, 99/100), (101/50, 99/50), (203/100, 197/100)], [0, 0, 1, 1]), 4)"
    by (simp add: generate_nonneg numeral_2_eq_2 counter_env_def class0_mean_def
        class1_mean_def float64_round_2)
  ultimately show ?thesis using h by simp
qed

text \<open>
  Claim C5, amended. The generator samples around \<open>(1, 1)\<close> and \<open>(m, m)\<close>, where \<open>m\<close> is the
  \<^verbatim>\<open>float64\<close> sum \<open>1 + d\<close>; the distance of the two means is \<open>|m - 1| \<surd>2\<close> for every shift
  \<open>d\<close>, which is \<open>|d| \<surd>2\<close> whenever the sum is exact. For shift distances \<open>0 \<le> d1 < d2\<close>
  the distance at \<open>d2\<close> is greater than or equal to the distance at \<open>d1\<close>, and strictly
  greater exactly when the two rounded sums differ.
\<close>

theorem mean_separation_monotone:
  assumes "0 \<le> d1" and "d1 < d2"
  shows "class0_mean = (1, 1)
    \<and> class1_mean d1 = (float64_round (1 + d1), float64_round (1 + d1))
    \<and> class1_mean d2 = (float64_round (1 + d2), float64_round (1 + d2))
    \<and> (\<forall>d. mean_separation d = \<bar>float64_round (1 + d) - 1\<bar> * sqrt 2)
    \<and> (\<forall>d. float64_round (1 + d) = 1 + d \<longrightarrow> mean_separation d = \<bar>d\<bar> * sqrt 2)
    \<and> mean_separation d1 = (float64_round (1 + d1) - 1) * sqrt 2
    \<and> mean_separation d2 = (float64_round (1 + d2) - 1) * sqrt 2
    \<and> mean_separation d1 \<le> mean_separation d2
    \<and> (mean_separation d1 < mean_separation d2
         \<longleftrightarrow> float64_round (1 + d1) < float64_round (1 + d2))"
proof -
  let ?m1 = "float64_round (1 + d1)" and ?m2 = "float64_round (1 + d2)"
  have m1: "1 \<le> ?m1" and m2: "1 \<le> ?m2"
    using assms by (simp_all add: class1_coordinate_ge_1)
  have le: "?m1 \<le> ?m2"
    using assms by (intro float64_round_mono_pos) simp_all
  have s1: "mean_separation d1 = (?m1 - 1) * sqrt 2"
    and s2: "mean_separation d2 = (?m2 - 1) * sqrt 2"
    using m1 m2 by (simp_all add: mean_separation_rounded)
  have exact: "\<forall>d. float64_round (1 + d) = 1 + d \<longrightarrow> mean_separation d = \<bar>d\<bar> * sqrt 2"
    by (simp add: mean_separation_rounded)
  have mono: "mean_separation d1 \<le> mean_separation d2"
    using le by (simp add: s1 s2)
  have strict: "mean_separation d1 < mean_separation d2 \<longleftrightarrow> ?m1 < ?m2"
    by (simp add: s1 s2)
  show ?thesis
    using s1 s2 exact mono strict
    by (simp add: class0_mean_def class1_mean_def mean_separation_rounded)
qed

theorem mean_separation_monotone_witness:
  "(0::real) \<le> 1 \<and> (1::real) < 2 \<and> mean_separation 1 = sqrt 2
   \<and> mean_separation 2 = 2 * sqrt 2 \<and> mean_separation 1 < mean_separation 2"
proof -
  have h1: "(0::real) \<le> 1" and h2: "(1::real) < 2" by simp_all
  from mean_separation_monotone [OF h1 h2] show ?thesis
    by (simp add: float64_round_2 float64_round_3)
qed

text \<open>
  The claim as written, strictly greater for every \<open>d1 < d2\<close>, fails in two ways. For
  negative shifts the means at \<open>d = -1\<close> are closer to each other than at \<open>d = -2\<close>. For
  the non-negative shifts \<open>2\<^sup>-\<^sup>6\<^sup>0 < 2\<^sup>-\<^sup>5\<^sup>9\<close> both sums \<open>1 + d\<close> round to 1, so the two means
  coincide at either shift and the distance is the same.
\<close>

theorem mean_separation_not_strictly_increasing:
  "(-2::real) < -1 \<and> mean_separation (-1) < mean_separation (-2)
   \<and> (0::real) \<le> 1 / 2 ^ 60 \<and> (1 / 2 ^ 60 :: real) < 1 / 2 ^ 59
   \<and> mean_separation (1 / 2 ^ 60) = 0 \<and> mean_separation (1 / 2 ^ 59) = 0"
proof -
  have a: "mean_separation (1 / 2 ^ 60) = 0"
    unfolding mean_separation_rounded float64_round_tiny60 by simp
  have b: "mean_separation (1 / 2 ^ 59) = 0"
    unfolding mean_separation_rounded float64_round_tiny59 by simp
  have c: "mean_separation (-1) < mean_separation (-2)"
    by (simp add: mean_separation_rounded float64_round_0 float64_round_m1)
  show ?thesis using a b c by simp
qed

text \<open>
  Claim C10. The class-0 block does not depend on the shift distance: the first \<open>n\<close>
  points and the first \<open>n\<close> labels returned for \<open>d\<close> are those returned for \<open>d'\<close>, from
  whatever generator states the two calls start. For \<open>0 \<le> n\<close> both calls return, and the
  block is the \<open>n\<close> draws around the class-0 mean, labelled 0.
\<close>

theorem class0_block_independent_of_shift:
  "map_sum id (\<lambda>r. (take (nat n) (fst (fst r)), take (nat n) (snd (fst r))))
       (generate_ellipsoid_clusters E g d n s)
   = map_sum id (\<lambda>r. (take (nat n) (fst (fst r)), take (nat n) (snd (fst r))))
       (generate_ellipsoid_clusters E g' d' n s)
   \<and> (0 \<le> n \<longrightarrow>
        map_sum id (\<lambda>r. (take (nat n) (fst (fst r)), take (nat n) (snd (fst r))))
          (generate_ellipsoid_clusters E g d n s)
        = Inr (fst (draw_many E (np_random_seed E 0) class0_mean (covariance_matrix s) (nat n)),
               replicate (nat n) 0))"
proof (cases "0 \<le> n")
  case True
  then show ?thesis by (simp add: generate_nonneg draw_many_length)
next
  case False
  then show ?thesis by (simp add: generate_negative)
qed

theorem class0_block_independent_of_shift_witness:
  "map_sum id (\<lambda>r. (take 2 (fst (fst r)), take 2 (snd (fst r))))
       (generate_ellipsoid_clusters (counter_env (constant_model (1/2)) [] []) 7 1 2 (1/2))
   = Inr ([(1, 1), (101/100, 99/100)], [0, 0])
   \<and> map_sum id (\<lambda>r. (take 2 (fst (fst r)), take 2 (snd (fst r))))
       (generate_ellipsoid_clusters (counter_env (constant_model (1/2)) [] []) 3 5 2 (1/2))
   = Inr ([(1, 1), (101/100, 99/100)], [0, 0])"
proof -
  have block: "fst (draw_many (counter_env (constant_model (1/2)) [] []) 0 class0_mean
                 (covariance_matrix (1/2)) 2) = [(1, 1), (101/100, 99/100)]"
    by (simp add: numeral_2_eq_2 counter_env_def class0_mean_def)
  have rep: "replicate 2 (0::real) = [0, 0]" by (simp add: numeral_2_eq_2)
  have seed: "np_random_seed (counter_env (constant_model (1/2)) [] []) 0 = 0"
    by (simp add: counter_env_def)
  from class0_block_independent_of_shift
         [of 2 "counter_env (constant_model (1/2)) [] []" 7 1 "1/2" 3 5]
  have a: "map_sum id (\<lambda>r. (take 2 (fst (fst r)), take 2 (snd (fst r))))
          (generate_ellipsoid_clusters (counter_env (constant_model (1/2)) [] []) 7 1 2 (1/2))
        = map_sum id (\<lambda>r. (take 2 (fst (fst r)), take 2 (snd (fst r))))
          (generate_ellipsoid_clusters (counter_env (constant_model (1/2)) [] []) 3 5 2 (1/2))"
    and b: "map_sum id (\<lambda>r. (take 2 (fst (fst r)), take 2 (snd (fst r))))
          (generate_ellipsoid_clusters (counter_env (constant_model (1/2)) [] []) 7 1 2 (1/2))
        = Inr ([(1, 1), (101/100, 99/100)], [0, 0])"
    by (auto simp add: block rep seed)
  show ?thesis by (intro conjI b trans [OF a [symmetric] b])
qed

section \<open>Properties of the loss\<close>

lemma np_neg_add: "np_neg (np_add a b) = np_add (np_neg a) (np_neg b)"
  by (cases a; cases b; simp)

lemma np_neg_sum: "np_neg (np_sum as) = np_sum (map np_neg as)"
  by (induction as) (simp_all add: np_neg_add)

lemma np_neg_mul_Fin: "np_neg (np_mul a (Fin c)) = np_mul (np_neg a) (Fin c)"
  by (cases a) (simp_all add: signed_inf_def)

lemma np_neg_mean: "np_neg (np_mean as) = np_mean (map np_neg as)"
  by (simp add: np_mean_def np_neg_mul_Fin np_neg_sum)

lemma logistic_loss_equal_lengths:
  assumes "X \<noteq> []" and "length y = length X"
  shows "logistic_loss model X y =
     Inr (np_neg (np_mean (map log_likelihood_term (zip y (map (proba1 model) X)))))"
  using assms by (simp add: logistic_loss_def predict_proba_def broadcast2_def)

lemma spec_mean_nll_eq:
  "spec_mean_nll ys ps = np_neg (np_mean (map log_likelihood_term (zip ys ps)))"
  by (simp add: spec_mean_nll_def np_neg_mean log_likelihood_term_def comp_def
      case_prod_unfold)

lemma np_sum_Fin: "np_sum (map Fin rs) = Fin (sum_list rs)"
  by (induction rs) simp_all

lemma log_likelihood_term_interior:
  assumes "0 < p" and "p < 1"
  shows "log_likelihood_term (y, p) = Fin (y * ln p + (1 - y) * ln (1 - p))"
  using assms by (simp add: log_likelihood_term_def np_log_def)

lemma terms_interior:
  assumes "length ys = length ps" and "\<forall>p\<in>set ps. 0 < p \<and> p < 1"
  shows "map log_likelihood_term (zip ys ps) =
     map Fin (map (\<lambda>i. ys ! i * ln (ps ! i) + (1 - ys ! i) * ln (1 - ps ! i)) [0..<length ps])"
proof (rule nth_equalityI)
  show "length (map log_likelihood_term (zip ys ps)) =
    length (map Fin (map (\<lambda>i. ys ! i * ln (ps ! i) + (1 - ys ! i) * ln (1 - ps ! i)) [0..<length ps]))"
    using assms by simp
next
  fix i assume "i < length (map log_likelihood_term (zip ys ps))"
  then have i: "i < length ps" "i < length ys" using assms by simp_all
  then have "0 < ps ! i \<and> ps ! i < 1" using assms(2) by simp
  with i show "map log_likelihood_term (zip ys ps) ! i =
     map Fin (map (\<lambda>i. ys ! i * ln (ps ! i) + (1 - ys ! i) * ln (1 - ps ! i)) [0..<length ps]) ! i"
    by (simp add: log_likelihood_term_interior)
qed

lemma spec_mean_nll_interior:
  assumes "ps \<noteq> []" and "length ys = length ps" and "\<forall>p\<in>set ps. 0 < p \<and> p < 1"
  shows "spec_mean_nll ys ps = Fin (spec_mean_nll_real ys ps)"
proof -
  let ?f = "\<lambda>i. ys ! i * ln (ps ! i) + (1 - ys ! i) * ln (1 - ps ! i)"
  have "np_sum (map log_likelihood_term (zip ys ps)) = Fin (sum_list (map ?f [0..<length ps]))"
    by (simp only: terms_interior [OF assms(2,3)] np_sum_Fin)
  also have "sum_list (map ?f [0..<length ps]) = (\<Sum>i<length ps. ?f i)"
    by (simp add: sum_list_sum_nth atLeast0LessThan)
  finally have s: "np_sum (map log_likelihood_term (zip ys ps)) = Fin (\<Sum>i<length ps. ?f i)" .
  have ne: "map log_likelihood_term (zip ys ps) \<noteq> []" using assms by (cases ys; cases ps; simp)
  have len: "length (zip ys ps) = length ps" using assms by simp
  have "np_mean (map log_likelihood_term (zip ys ps)) = Fin ((\<Sum>i<length ps. ?f i) / real (length ps))"
    using ne assms(2) by (simp add: np_mean_def s)
  moreover have "spec_mean_nll_real ys ps = - ((\<Sum>i<length ps. ?f i) / real (length ps))"
    unfolding spec_mean_nll_real_def
    by (simp only: sum_negf minus_divide_left)
  ultimately show ?thesis
    by (simp add: spec_mean_nll_eq)
qed

text \<open>
  Claim C6. For a fitted model and a training dataset of \<open>N \<ge> 1\<close> points with as many
  labels as points, \<open>logistic_loss\<close> returns the mean negative log-likelihood as the
  specification words it: the average over the points of
  \<open>-(y\<^sub>i ln p\<^sub>i + (1 - y\<^sub>i) ln (1 - p\<^sub>i))\<close>, where \<open>p\<^sub>i\<close> is the predicted class-1
  probability of point \<open>i\<close>. The equality holds in float arithmetic with its infinities;
  when every \<open>p\<^sub>i\<close> lies strictly between 0 and 1 the loss is the real number given by the
  formula.
\<close>

theorem logistic_loss_is_mean_nll:
  assumes "X \<noteq> []" and "length y = length X"
  shows "logistic_loss model X y = Inr (spec_mean_nll y (map (proba1 model) X))
    \<and> ((\<forall>x\<in>set X. 0 < proba1 model x \<and> proba1 model x < 1) \<longrightarrow>
         logistic_loss model X y = Inr (Fin (spec_mean_nll_real y (map (proba1 model) X))))"
  using assms
  by (simp add: logistic_loss_equal_lengths spec_mean_nll_eq [symmetric] spec_mean_nll_interior)

theorem logistic_loss_is_mean_nll_witness:
  "[(0, 0), (1, 1)] \<noteq> ([] :: point list) \<and> length [0, 1 :: real] = length [(0, 0), (1, 1) :: point]
   \<and> logistic_loss (constant_model (1/2)) [(0, 0), (1, 1)] [0, 1] = Inr (Fin (ln 2))"
proof -
  have h1: "[(0, 0), (1, 1)] \<noteq> ([] :: point list)" by simp
  have h2: "length [0, 1 :: real] = length [(0, 0), (1, 1) :: point]" by simp
  have h3: "\<forall>x\<in>set [(0, 0), (1, 1) :: point].
      0 < proba1 (constant_model (1/2)) x \<and> proba1 (constant_model (1/2)) x < 1"
    by (simp add: constant_model_def)
  have v: "spec_mean_nll_real [0, 1] (map (proba1 (constant_model (1/2))) [(0, 0), (1, 1)]) = ln 2"
    by (simp add: spec_mean_nll_real_def constant_model_def lessThan_Suc ln_div)
  from logistic_loss_is_mean_nll [OF h1 h2, of "constant_model (1/2)"] h3
  have "logistic_loss (constant_model (1/2)) [(0, 0), (1, 1)] [0, 1] =
      Inr (Fin (spec_mean_nll_real [0, 1] (map (proba1 (constant_model (1/2))) [(0, 0), (1, 1)])))"
    by blast
  with v h1 h2 show ?thesis by simp
qed


lemma log_likelihood_term_cases:
  assumes "y = 0 \<or> y = 1" and "0 \<le> p" and "p \<le> 1"
  shows "(log_likelihood_term (y, p) = NaN \<longleftrightarrow> p = y)
    \<and> (log_likelihood_term (y, p) = NaN \<or> log_likelihood_term (y, p) = NInf
         \<or> (\<exists>r<0. log_likelihood_term (y, p) = Fin r))"
proof -
  consider "p = 0" | "0 < p" "p < 1" | "p = 1" using assms by linarith
  then show ?thesis
  proof cases
    case 1
    with assms(1) show ?thesis
      by (auto simp add: log_likelihood_term_def np_log_def signed_inf_def)
  next
    case 2
    then have "ln p < 0" and "ln (1 - p) < 0" by simp_all
    with 2 assms(1) show ?thesis
      by (auto simp add: log_likelihood_term_def np_log_def signed_inf_def)
  next
    case 3
    with assms(1) show ?thesis
      by (auto simp add: log_likelihood_term_def np_log_def signed_inf_def)
  qed
qed

lemma np_sum_nonpositive_terms:
  assumes "\<forall>t\<in>set ts. t = NaN \<or> t = NInf \<or> (\<exists>r<0. t = Fin r)"
  shows "(np_sum ts = NaN \<longleftrightarrow> NaN \<in> set ts)
    \<and> (np_sum ts = NaN \<or> np_sum ts = NInf
         \<or> (\<exists>r\<le>0. np_sum ts = Fin r \<and> (ts \<noteq> [] \<longrightarrow> r < 0)))"
  using assms
proof (induction ts)
  case Nil
  show ?case by simp
next
  case (Cons t ts)
  from Cons.prems have p: "\<forall>t\<in>set ts. t = NaN \<or> t = NInf \<or> (\<exists>r<0. t = Fin r)" by simp
  note ih = conjunct1 [OF Cons.IH [OF p]] conjunct2 [OF Cons.IH [OF p]]
  from Cons.prems have t: "t = NaN \<or> t = NInf \<or> (\<exists>r<0. t = Fin r)" by simp
  from t ih(2) show ?case
  proof (elim disjE exE conjE)
  qed (use ih(1) in \<open>auto simp add: add_neg_nonpos\<close>)
qed

lemma np_mean_nonpositive_terms:
  assumes "ts \<noteq> []" and "\<forall>t\<in>set ts. t = NaN \<or> t = NInf \<or> (\<exists>r<0. t = Fin r)"
  shows "(np_neg (np_mean ts) = NaN \<longleftrightarrow> NaN \<in> set ts)
    \<and> (np_neg (np_mean ts) = NaN \<or> np_neg (np_mean ts) = PInf
         \<or> (\<exists>r>0. np_neg (np_mean ts) = Fin r))"
proof -
  have n: "0 < real (length ts)" using assms(1) by simp
  from np_sum_nonpositive_terms [OF assms(2)] assms(1)
  have a: "np_sum ts = NaN \<longleftrightarrow> NaN \<in> set ts"
    and b: "np_sum ts = NaN \<or> np_sum ts = NInf \<or> (\<exists>r<0. np_sum ts = Fin r)"
    by auto
  from b show ?thesis
  proof (elim disjE exE conjE)
    assume "np_sum ts = NaN"
    with a assms(1) show ?thesis by (simp add: np_mean_def)
  next
    assume "np_sum ts = NInf"
    with a assms(1) n show ?thesis by (auto simp add: np_mean_def signed_inf_def)
  next
    fix r assume "r < 0" "np_sum ts = Fin r"
    with a assms(1) n show ?thesis
      by (auto simp add: np_mean_def divide_neg_pos)
  qed
qed

text \<open>
  Claim C7, amended. For a non-empty dataset with labels 0 or 1 and predicted
  probabilities in \<open>[0, 1]\<close> the loss is \<^verbatim>\<open>nan\<close> exactly when some \<open>p\<^sub>i\<close> equals its label
  \<open>y\<^sub>i\<close>, in particular when every prediction is perfect and maximally confident, where
  the loss is \<^verbatim>\<open>nan\<close> and not 0. Otherwise the loss is \<open>\<ge> 0\<close>: it is \<^verbatim>\<open>inf\<close> or a number that
  is not negative.
\<close>

theorem logistic_loss_sign:
  assumes "X \<noteq> []" and "length y = length X"
    and "\<forall>i<length X. y ! i = 0 \<or> y ! i = 1"
    and "\<forall>x\<in>set X. 0 \<le> proba1 model x \<and> proba1 model x \<le> 1"
  shows "\<exists>l. logistic_loss model X y = Inr l
    \<and> (l = NaN \<longleftrightarrow> (\<exists>i<length X. proba1 model (X ! i) = y ! i))
    \<and> ((\<forall>i<length X. proba1 model (X ! i) = y ! i) \<longrightarrow> l = NaN)
    \<and> (l \<noteq> NaN \<longrightarrow> np_nonneg l)
    \<and> (l = NaN \<or> l = PInf \<or> (\<exists>r\<ge>0. l = Fin r))"
proof -
  let ?ts = "map log_likelihood_term (zip y (map (proba1 model) X))"
  let ?l = "np_neg (np_mean ?ts)"
  have len: "length ?ts = length X" using assms(2) by simp
  have nth: "?ts ! i = log_likelihood_term (y ! i, proba1 model (X ! i))" if "i < length X" for i
    using that assms(2) by simp
  have cases_i: "(?ts ! i = NaN \<longleftrightarrow> proba1 model (X ! i) = y ! i)
      \<and> (?ts ! i = NaN \<or> ?ts ! i = NInf \<or> (\<exists>r<0. ?ts ! i = Fin r))" if "i < length X" for i
  proof -
    from that assms(3) have "y ! i = 0 \<or> y ! i = 1" by simp
    moreover from that assms(4) have "0 \<le> proba1 model (X ! i)" "proba1 model (X ! i) \<le> 1"
      by simp_all
    ultimately show ?thesis
      unfolding nth [OF that] by (rule log_likelihood_term_cases)
  qed
  have all: "\<forall>t\<in>set ?ts. t = NaN \<or> t = NInf \<or> (\<exists>r<0. t = Fin r)"
  proof
    fix t assume "t \<in> set ?ts"
    then obtain i where "i < length ?ts" "?ts ! i = t" by (auto simp only: in_set_conv_nth)
    with cases_i [of i] len show "t = NaN \<or> t = NInf \<or> (\<exists>r<0. t = Fin r)" by auto
  qed
  have ne: "?ts \<noteq> []" using assms(1) len by auto
  have nan: "NaN \<in> set ?ts \<longleftrightarrow> (\<exists>i<length X. proba1 model (X ! i) = y ! i)"
  proof
    assume "NaN \<in> set ?ts"
    then obtain i where "i < length ?ts" "?ts ! i = NaN" by (auto simp only: in_set_conv_nth)
    with cases_i [of i] len show "\<exists>i<length X. proba1 model (X ! i) = y ! i" by auto
  next
    assume "\<exists>i<length X. proba1 model (X ! i) = y ! i"
    then obtain i where i: "i < length X" "proba1 model (X ! i) = y ! i" by blast
    with cases_i [of i] have "?ts ! i = NaN" by simp
    with i(1) len show "NaN \<in> set ?ts" by (metis nth_mem)
  qed
  note m = np_mean_nonpositive_terms [OF ne all]
  have a: "?l = NaN \<longleftrightarrow> (\<exists>i<length X. proba1 model (X ! i) = y ! i)"
    using conjunct1 [OF m] nan by (rule trans)
  have b: "?l = NaN \<or> ?l = PInf \<or> (\<exists>r>0. ?l = Fin r)"
    by (rule conjunct2 [OF m])
  have "logistic_loss model X y = Inr ?l"
    by (rule logistic_loss_equal_lengths [OF assms(1,2)])
  moreover from a assms(1) have "(\<forall>i<length X. proba1 model (X ! i) = y ! i) \<longrightarrow> ?l = NaN"
    by (cases X) auto
  moreover from b have "?l \<noteq> NaN \<longrightarrow> np_nonneg ?l" by auto
  moreover from b have "?l = NaN \<or> ?l = PInf \<or> (\<exists>r\<ge>0. ?l = Fin r)" by force
  ultimately show ?thesis using a by blast
qed

theorem logistic_loss_sign_witness:
  "\<exists>l. logistic_loss (constant_model (1/2)) [(0, 0), (1, 1)] [0, 1] = Inr l
     \<and> l \<noteq> NaN \<and> np_nonneg l"
proof -
  have h1: "[(0, 0), (1, 1)] \<noteq> ([] :: point list)" by simp
  have h2: "length [0, 1 :: real] = length [(0, 0), (1, 1) :: point]" by simp
  have h3: "\<forall>i<length [(0, 0), (1, 1) :: point]. [0, 1 :: real] ! i = 0 \<or> [0, 1 :: real] ! i = 1"
    by (simp add: numeral_2_eq_2 All_less_Suc)
  have h4: "\<forall>x\<in>set [(0, 0), (1, 1) :: point].
      0 \<le> proba1 (constant_model (1/2)) x \<and> proba1 (constant_model (1/2)) x \<le> 1"
    by (simp add: constant_model_def)
  have no: "\<not> (\<exists>i<length [(0, 0), (1, 1) :: point].
      proba1 (constant_model (1/2)) ([(0, 0), (1, 1)] ! i) = [0, 1 :: real] ! i)"
    by (simp add: constant_model_def numeral_2_eq_2 Ex_less_Suc)
  from logistic_loss_sign [OF h1 h2 h3 h4] no show ?thesis by blast
qed


text \<open>
  The claim as written, a loss that is always \<open>\<ge> 0\<close>, fails at a perfect and maximally
  confident prediction: for one point with label 1 and predicted probability 1 the term
  \<open>(1 - y) * log (1 - p)\<close> is \<open>0 * -inf\<close>, the loss is \<^verbatim>\<open>nan\<close>, and \<^verbatim>\<open>nan >= 0\<close> is false.
\<close>

theorem logistic_loss_nan_at_perfect_prediction:
  "map_sum id (\<lambda>l. (l, np_nonneg l)) (logistic_loss (constant_model 1) [(0, 0)] [1])
     = Inr (NaN, False)"
  by (simp add: logistic_loss_def predict_proba_def broadcast2_def constant_model_def
      log_likelihood_term_def np_log_def np_mean_def signed_inf_def)

section \<open>Properties of one experiment\<close>

lemma foldl_min_Min: "foldl min (a::'a::linorder) rest = Min (set (a # rest))"
proof -
  have "(\<lambda>x s. min s x) = (min :: 'a \<Rightarrow> 'a \<Rightarrow> 'a)"
    by (intro ext) (rule min.commute)
  then show ?thesis unfolding foldl_conv_fold Min.set_eq_fold by simp
qed

lemma np_min_nonempty: "as \<noteq> [] \<Longrightarrow> np_min as = Inr (Min (set as))"
  by (cases as) (simp_all only: np_min_def list.case foldl_min_Min, simp)

lemma np_max_nonempty: "as \<noteq> [] \<Longrightarrow> \<exists>m. np_max as = Inr m"
  by (cases as) (simp_all add: np_max_def)

lemma set_concat_cdist:
  "set (concat (cdist v1 v0)) = (\<lambda>(a, b). euclidean a b) ` (set v1 \<times> set v0)"
  by (auto simp add: cdist_def)

lemma concat_cdist_nonempty: "v1 \<noteq> [] \<Longrightarrow> v0 \<noteq> [] \<Longrightarrow> concat (cdist v1 v0) \<noteq> []"
  by (cases v1; cases v0) (simp_all add: cdist_def)

lemma min_distance_first:
  "min_distance (v1 # r1) (v0 # r0) = np_min (concat (cdist v1 v0))"
  by (simp add: min_distance_def first_path_def)

lemma min_distance_no_path:
  "p1 = [] \<or> p0 = [] \<Longrightarrow> min_distance p1 p0 = Inl IndexError"
  by (auto simp add: min_distance_def first_path_def split: list.splits)

lemma contour_loop_levels:
  "contour_loop E S contour_levels widths =
     (case min_distance (contourf E S (7/10) 1) (contourf E S 0 (3/10)) of
        Inl e \<Rightarrow> Inl e
      | Inr w \<Rightarrow> Inr (widths @ [w]))"
  by (simp add: contour_levels_def Let_def split: sum.splits)

lemma np_linspace_no_error: "0 \<le> num \<Longrightarrow> np_linspace a b num \<noteq> Inl e"
  by (simp add: np_linspace_def Let_def)

lemma confidence_surface_returns:
  assumes "X \<noteq> []"
  shows "\<exists>S. confidence_surface model X = Inr S"
proof -
  from assms have a: "map fst X \<noteq> []" and b: "map snd X \<noteq> []" by simp_all
  obtain x_hi where 1: "np_max (map fst X) = Inr x_hi" using np_max_nonempty [OF a] by blast
  obtain y_hi where 2: "np_max (map snd X) = Inr y_hi" using np_max_nonempty [OF b] by blast
  have 3: "np_linspace u v 200 \<noteq> Inl e" for u v e
    by (rule np_linspace_no_error) simp
  show ?thesis
    unfolding confidence_surface_def np_min_nonempty [OF a] np_min_nonempty [OF b] 1 2
    by (simp add: 3 split: sum.splits prod.splits)
qed

lemma generate_default_shape:
  assumes "generate_ellipsoid_clusters E g d 100 (1/2) = Inr ((X, y), g1)"
  shows "length X = 200 \<and> length y = 200"
  using assms by (auto simp add: generate_nonneg draw_many_length)

lemma run_experiment_unfold:
  assumes gen: "generate_ellipsoid_clusters E g d 100 (1/2) = Inr ((X, y), g1)"
    and fit: "fit E X y = Some model"
    and surf: "confidence_surface model X = Inr S"
  shows "run_experiment E (g, L) d =
     (case min_distance (contourf E S (7/10) 1) (contourf E S 0 (3/10)) of
        Inl e \<Rightarrow> Inl e
      | Inr w \<Rightarrow>
          Inr (g1, \<lparr>beta0_list = beta0_list L @ [intercept_0 model],
                    beta1_list = beta1_list L @ [fst (coef_0 model)],
                    beta2_list = beta2_list L @ [snd (coef_0 model)],
                    slope_list = slope_list L
                       @ [np_truediv (- fst (coef_0 model)) (snd (coef_0 model))],
                    intercept_list = intercept_list L
                       @ [np_truediv (- intercept_0 model) (snd (coef_0 model))],
                    loss_list = loss_list L
                       @ [np_neg (np_mean (map log_likelihood_term
                                            (zip y (map (proba1 model) X))))],
                    margin_widths = margin_widths L @ [w]\<rparr>))"
proof -
  from generate_default_shape [OF gen] have ne: "X \<noteq> []" and len: "length y = length X"
    by auto
  show ?thesis
    by (simp add: run_experiment_def gen fit_logistic_regression_def fit
        logistic_loss_equal_lengths [OF ne len] decision_boundary_def surf contour_loop_levels
        case_prod_unfold split: sum.splits)
qed

lemma generate_default_returns:
  "\<exists>X y g1. generate_ellipsoid_clusters E g d 100 (1/2) = Inr ((X, y), g1)"
  by (simp add: generate_nonneg)

lemma counter_env_fit: "fit (counter_env model upper lower) X y = Some model"
  by (simp add: counter_env_def)

lemma counter_env_upper: "contourf (counter_env model upper lower) S lo 1 = upper"
  by (simp add: counter_env_def)

lemma counter_env_lower: "hi \<noteq> 1 \<Longrightarrow> contourf (counter_env model upper lower) S lo hi = lower"
  by (simp add: counter_env_def)

lemma sqrt_9: "sqrt 9 = 3"
  using real_sqrt_abs [of 3] by simp

lemma sqrt_16: "sqrt 16 = 4"
  using real_sqrt_abs [of 4] by simp

lemma min_distance_errors:
  "min_distance p1 p0 = Inl e \<Longrightarrow> e = IndexError \<or> e = ValueError"
  by (auto simp add: min_distance_def first_path_def np_min_def split: list.splits)

lemma run_experiment_fit_error:
  assumes gen: "generate_ellipsoid_clusters E g d 100 (1/2) = Inr ((X, y), g1)"
    and fit: "fit E X y = None"
  shows "run_experiment E (g, L) d = Inl FitError"
  by (simp add: run_experiment_def gen fit_logistic_regression_def fit)

lemma run_experiment_no_zero_division: "run_experiment E s d \<noteq> Inl ZeroDivisionError"
proof -
  obtain g L where s: "s = (g, L)" by (cases s)
  obtain X y g1 where gen: "generate_ellipsoid_clusters E g d 100 (1/2) = Inr ((X, y), g1)"
    using generate_default_returns [of E g d] by blast
  show ?thesis
  proof (cases "fit E X y")
    case None
    then show ?thesis by (simp add: s run_experiment_fit_error [OF gen])
  next
    case (Some model)
    from generate_default_shape [OF gen] have "X \<noteq> []" by auto
    then obtain S where surf: "confidence_surface model X = Inr S"
      using confidence_surface_returns by blast
    show ?thesis
      unfolding s run_experiment_unfold [OF gen Some surf]
      by (auto split: sum.splits dest: min_distance_errors)
  qed
qed

lemma signed_inf_not_finite: "signed_inf a \<noteq> Fin r"
  by (simp add: signed_inf_def)

text \<open>
  Claim C1. In a sweep iteration whose model is fitted and in which both contours at the
  level 0.7 have a first polyline with at least one vertex, the iteration completes and
  appends one margin width: the minimum entry of the distance matrix \<open>cdist\<close> between the
  vertices of the first polyline of the class-1 region (probability between 0.7 and 1) and
  those of the first polyline of the class-0 region (probability between 0 and 0.3). It
  is a lower bound of all vertex distances, it is attained by a pair of vertices, and it
  is not negative.
\<close>

theorem margin_width_is_min_distance:
  assumes gen: "generate_ellipsoid_clusters E g d 100 (1/2) = Inr ((X, y), g1)"
    and fit: "fit E X y = Some model"
    and surf: "confidence_surface model X = Inr S"
    and upper: "contourf E S (7/10) 1 = v1 # r1"
    and lower: "contourf E S 0 (3/10) = v0 # r0"
    and v1: "v1 \<noteq> []" and v0: "v0 \<noteq> []"
  shows "\<exists>L' w. run_experiment E (g, L) d = Inr (g1, L')
     \<and> margin_widths L' = margin_widths L @ [w]
     \<and> w = Min (set (concat (cdist v1 v0)))
     \<and> (\<forall>a\<in>set v1. \<forall>b\<in>set v0. w \<le> euclidean a b)
     \<and> (\<exists>a\<in>set v1. \<exists>b\<in>set v0. w = euclidean a b)
     \<and> 0 \<le> w"
proof -
  let ?D = "concat (cdist v1 v0)"
  let ?w = "Min (set ?D)"
  have ne: "?D \<noteq> []" by (rule concat_cdist_nonempty [OF v1 v0])
  have md: "min_distance (contourf E S (7/10) 1) (contourf E S 0 (3/10)) = Inr ?w"
    by (simp only: upper lower min_distance_first np_min_nonempty [OF ne])
  have fin: "finite (set ?D)" and ne': "set ?D \<noteq> {}" using ne by simp_all
  have le: "\<forall>a\<in>set v1. \<forall>b\<in>set v0. ?w \<le> euclidean a b"
  proof (intro ballI)
    fix a b assume "a \<in> set v1" "b \<in> set v0"
    then have "euclidean a b \<in> (\<lambda>(a, b). euclidean a b) ` (set v1 \<times> set v0)" by force
    then have "euclidean a b \<in> set ?D" by (simp only: set_concat_cdist)
    then show "?w \<le> euclidean a b" by (rule Min_le [OF fin])
  qed
  have "?w \<in> set ?D" by (rule Min_in [OF fin ne'])
  then have "?w \<in> (\<lambda>(a, b). euclidean a b) ` (set v1 \<times> set v0)"
    by (simp only: set_concat_cdist)
  then have att: "\<exists>a\<in>set v1. \<exists>b\<in>set v0. ?w = euclidean a b"
    by force
  then have nonneg: "0 \<le> ?w" by (auto simp add: euclidean_def)
  show ?thesis
    using le att nonneg
    by (simp add: run_experiment_unfold [OF gen fit surf] md)
qed

theorem margin_width_is_min_distance_witness:
  "\<exists>g1 L'. run_experiment (counter_env (linear_model (-3) 1 1) [[(3, 0), (4, 0)]] [[(0, 0)]])
       (0, empty_lists) (1/4) = Inr (g1, L')
     \<and> margin_widths L' = [3]"
proof -
  let ?E = "counter_env (linear_model (-3) 1 1) [[(3, 0), (4, 0)]] [[(0, 0)]]"
  obtain X y g1 where gen: "generate_ellipsoid_clusters ?E 0 (1/4) 100 (1/2) = Inr ((X, y), g1)"
    using generate_default_returns [of ?E 0 "1/4"] by blast
  have fit: "fit ?E X y = Some (linear_model (-3) 1 1)" by (rule counter_env_fit)
  from generate_default_shape [OF gen] have "X \<noteq> []" by auto
  then obtain S where surf: "confidence_surface (linear_model (-3) 1 1) X = Inr S"
    using confidence_surface_returns by blast
  have upper: "contourf ?E S (7/10) 1 = [(3, 0), (4, 0)] # []" by (rule counter_env_upper)
  have lower: "contourf ?E S 0 (3/10) = [(0, 0)] # []" by (rule counter_env_lower) simp
  have v1: "[(3, 0), (4, 0)] \<noteq> ([] :: point list)" and v0: "[(0, 0)] \<noteq> ([] :: point list)"
    by simp_all
  have m: "Min (set (concat (cdist [(3, 0), (4, 0)] [(0, 0)]))) = 3"
    by (simp add: cdist_def euclidean_def sqrt_9 sqrt_16)
  from margin_width_is_min_distance [OF gen fit surf upper lower v1 v0, where L = empty_lists]
  obtain L' w where r: "run_experiment ?E (0, empty_lists) (1/4) = Inr (g1, L')"
    and mw: "margin_widths L' = margin_widths empty_lists @ [w]"
    and w: "w = Min (set (concat (cdist [(3, 0), (4, 0)] [(0, 0)])))"
    by blast
  have "margin_widths L' = [3]" using mw w m by (simp add: empty_lists_def)
  with r show ?thesis by blast
qed



text \<open>
  Claim C9. In a sweep iteration whose contouring yields no polyline for the class-1
  region or none for the class-0 region at the level 0.7, taking the first path raises
  \<^verbatim>\<open>IndexError\<close>: the iteration returns the error, no margin is recorded, and the sweep
  that reaches this iteration ends with the same error.
\<close>

theorem empty_contour_raises:
  assumes gen: "generate_ellipsoid_clusters E g d 100 (1/2) = Inr ((X, y), g1)"
    and fit: "fit E X y = Some model"
    and surf: "confidence_surface model X = Inr S"
    and empty: "contourf E S (7/10) 1 = [] \<or> contourf E S 0 (3/10) = []"
  shows "run_experiment E (g, L) d = Inl IndexError
     \<and> sweep_loop E (g, L) (d # rest) = Inl IndexError"
  by (simp add: run_experiment_unfold [OF gen fit surf] min_distance_no_path [OF empty])


theorem empty_contour_raises_witness:
  "run_experiment (counter_env (linear_model (-3) 1 1) [] [[(0, 0)]]) (0, empty_lists) (1/4)
     = Inl IndexError"
proof -
  let ?E = "counter_env (linear_model (-3) 1 1) [] [[(0, 0)]]"
  obtain X y g1 where gen: "generate_ellipsoid_clusters ?E 0 (1/4) 100 (1/2) = Inr ((X, y), g1)"
    using generate_default_returns [of ?E 0 "1/4"] by blast
  have fit: "fit ?E X y = Some (linear_model (-3) 1 1)" by (rule counter_env_fit)
  from generate_default_shape [OF gen] have "X \<noteq> []" by auto
  then obtain S where surf: "confidence_surface (linear_model (-3) 1 1) X = Inr S"
    using confidence_surface_returns by blast
  have empty: "contourf ?E S (7/10) 1 = [] \<or> contourf ?E S 0 (3/10) = []"
    by (simp add: counter_env_upper)
  from empty_contour_raises [OF gen fit surf empty, where L = empty_lists] show ?thesis by simp
qed


text \<open>
  Claim C8, amended. When the fitted coefficient \<open>\<beta>\<^sub>2\<close> is zero, the quotients
  \<open>-\<beta>\<^sub>1 / \<beta>\<^sub>2\<close> and \<open>-\<beta>\<^sub>0 / \<beta>\<^sub>2\<close> of numpy floats raise nothing: slope and intercept are
  infinite, or \<^verbatim>\<open>nan\<close> for a zero numerator, and never a finite number. No iteration ends
  with a division error, and an iteration whose margin is defined completes and records
  the two values.
\<close>

theorem zero_beta2_not_finite:
  assumes gen: "generate_ellipsoid_clusters E g d 100 (1/2) = Inr ((X, y), g1)"
    and fit: "fit E X y = Some model"
    and surf: "confidence_surface model X = Inr S"
    and zero: "snd (coef_0 model) = 0"
  shows "run_experiment E (g, L) d \<noteq> Inl ZeroDivisionError
    \<and> decision_boundary (intercept_0 model) (fst (coef_0 model)) (snd (coef_0 model))
        = (signed_inf (- fst (coef_0 model)), signed_inf (- intercept_0 model))
    \<and> (\<forall>r. signed_inf (- fst (coef_0 model)) \<noteq> Fin r)
    \<and> (\<forall>r. signed_inf (- intercept_0 model) \<noteq> Fin r)
    \<and> (\<forall>w. min_distance (contourf E S (7/10) 1) (contourf E S 0 (3/10)) = Inr w \<longrightarrow>
          (\<exists>L'. run_experiment E (g, L) d = Inr (g1, L')
             \<and> slope_list L' = slope_list L @ [signed_inf (- fst (coef_0 model))]
             \<and> intercept_list L' = intercept_list L @ [signed_inf (- intercept_0 model)]
             \<and> margin_widths L' = margin_widths L @ [w]))"
proof (intro conjI)
  show "run_experiment E (g, L) d \<noteq> Inl ZeroDivisionError"
    by (rule run_experiment_no_zero_division)
  show "decision_boundary (intercept_0 model) (fst (coef_0 model)) (snd (coef_0 model))
        = (signed_inf (- fst (coef_0 model)), signed_inf (- intercept_0 model))"
    by (simp add: decision_boundary_def np_truediv_def zero)
  show "\<forall>r. signed_inf (- fst (coef_0 model)) \<noteq> Fin r"
    and "\<forall>r. signed_inf (- intercept_0 model) \<noteq> Fin r"
    by (simp_all add: signed_inf_not_finite)
  show "\<forall>w. min_distance (contourf E S (7/10) 1) (contourf E S 0 (3/10)) = Inr w \<longrightarrow>
          (\<exists>L'. run_experiment E (g, L) d = Inr (g1, L')
             \<and> slope_list L' = slope_list L @ [signed_inf (- fst (coef_0 model))]
             \<and> intercept_list L' = intercept_list L @ [signed_inf (- intercept_0 model)]
             \<and> margin_widths L' = margin_widths L @ [w])"
    by (simp add: run_experiment_unfold [OF gen fit surf] np_truediv_def zero)
qed

theorem zero_beta2_not_finite_witness:
  "\<exists>g1 L'. run_experiment (counter_env (linear_model (-3) 1 0) [[(3, 0), (4, 0)]] [[(0, 0)]])
        (0, empty_lists) (1/4) = Inr (g1, L')
      \<and> slope_list L' = [NInf] \<and> intercept_list L' = [PInf] \<and> margin_widths L' = [3]"
proof -
  let ?m = "linear_model (-3) 1 0"
  let ?E = "counter_env ?m [[(3, 0), (4, 0)]] [[(0, 0)]]"
  obtain X y g1 where gen: "generate_ellipsoid_clusters ?E 0 (1/4) 100 (1/2) = Inr ((X, y), g1)"
    using generate_default_returns [of ?E 0 "1/4"] by blast
  have fit: "fit ?E X y = Some ?m" by (rule counter_env_fit)
  from generate_default_shape [OF gen] have "X \<noteq> []" by auto
  then obtain S where surf: "confidence_surface ?m X = Inr S"
    using confidence_surface_returns by blast
  have zero: "snd (coef_0 ?m) = 0" by (simp add: linear_model_def)
  have md: "min_distance (contourf ?E S (7/10) 1) (contourf ?E S 0 (3/10)) = Inr 3"
    by (simp add: counter_env_upper counter_env_lower min_distance_first np_min_def cdist_def
        euclidean_def sqrt_9 sqrt_16)
  from zero_beta2_not_finite [OF gen fit surf zero, where L = empty_lists] md
  obtain L' where r: "run_experiment ?E (0, empty_lists) (1/4) = Inr (g1, L')"
    and sl: "slope_list L' = slope_list empty_lists @ [signed_inf (- fst (coef_0 ?m))]"
    and ic: "intercept_list L' = intercept_list empty_lists @ [signed_inf (- intercept_0 ?m)]"
    and mw: "margin_widths L' = margin_widths empty_lists @ [3]"
    by blast
  have "slope_list L' = [NInf]" "intercept_list L' = [PInf]" "margin_widths L' = [3]"
    using sl ic mw by (simp_all add: empty_lists_def linear_model_def signed_inf_def)
  with r show ?thesis by blast
qed


text \<open>
  The claim as written, a division-by-zero error that ends the iteration, fails for the
  model \<open>\<beta>\<^sub>0 = -3\<close>, \<open>\<beta>\<^sub>1 = 1\<close>, \<open>\<beta>\<^sub>2 = 0\<close>: the iteration returns with slope \<^verbatim>\<open>-inf\<close> and
  intercept \<^verbatim>\<open>inf\<close>.
\<close>

theorem zero_beta2_no_division_error:
  "map_sum id (\<lambda>r. (slope_list (snd r), intercept_list (snd r)))
     (run_experiment (counter_env (linear_model (-3) 1 0) [[(3, 0), (4, 0)]] [[(0, 0)]])
        (0, empty_lists) (1/4))
   = Inr ([NInf], [PInf])"
proof -
  let ?m = "linear_model (-3) 1 0"
  let ?E = "counter_env ?m [[(3, 0), (4, 0)]] [[(0, 0)]]"
  obtain X y g1 where gen: "generate_ellipsoid_clusters ?E 0 (1/4) 100 (1/2) = Inr ((X, y), g1)"
    using generate_default_returns [of ?E 0 "1/4"] by blast
  have fit: "fit ?E X y = Some ?m" by (rule counter_env_fit)
  from generate_default_shape [OF gen] have "X \<noteq> []" by auto
  then obtain S where surf: "confidence_surface ?m X = Inr S"
    using confidence_surface_returns by blast
  have md: "min_distance (contourf ?E S (7/10) 1) (contourf ?E S 0 (3/10)) = Inr 3"
    by (simp add: counter_env_upper counter_env_lower min_distance_first np_min_def cdist_def
        euclidean_def sqrt_9 sqrt_16)
  have "map_sum id (\<lambda>r. (slope_list (snd r), intercept_list (snd r)))
          (run_experiment ?E (0, empty_lists) (1/4))
        = Inr (slope_list empty_lists @ [np_truediv (- fst (coef_0 ?m)) (snd (coef_0 ?m))],
               intercept_list empty_lists @ [np_truediv (- intercept_0 ?m) (snd (coef_0 ?m))])"
    unfolding run_experiment_unfold [OF gen fit surf] md by simp
  then show ?thesis
    by (simp add: linear_model_def np_truediv_def signed_inf_def empty_lists_def)
qed


section \<open>Properties of the sweep\<close>














end
